theory Spec2Isabelle
  imports Main "HOL-Library.Sublist"
begin

section \<open>Versioned scene-file names: the \<open>SceneFile\<close> class of \<open>mayautils.py\<close>\<close>

text \<open>
  The module defines one class, \<open>SceneFile\<close>, with four attributes (\<open>_dir\<close>,
  \<open>descriptor\<close>, \<open>version\<close>, \<open>ext\<close>) and the methods \<open>basename\<close>, \<open>path\<close>,
  \<open>_init_properties_from_path\<close>, \<open>save\<close>, \<open>next_avail_version\<close> and
  \<open>increment_and_save\<close>. Python strings are lists of characters, Python's unbounded
  integers are \<open>int\<close>, a raised exception is the \<open>Inl\<close> of a sum, and the mutable object
  and the host application are passed in and returned.
\<close>

subsection \<open>Values and exceptions\<close>

text \<open>
  The exception classes that the code and the library calls it makes can raise. The two
  host errors carry the host's message.
\<close>

datatype error =
    RuntimeError string
  | OSError string
  | ValueError
  | IndexError
  | TypeError
  | AttributeError

text \<open>
  The directory attribute is written from values a caller supplies, so it is kept as a
  tagged Python value: \<open>None\<close>, a plain string, or a \<open>Path\<close> object (pymel's \<open>Path\<close> is a
  subclass of the string type; \<open>PyPath s\<close> is the \<open>Path\<close> whose text is \<open>s\<close>).
  \<open>descriptor\<close>, \<open>version\<close> and \<open>ext\<close> are taken at their documented types.
\<close>

datatype pyval = PyNone | PyStr string | PyPath string

fun is_Path :: "pyval \<Rightarrow> bool" where
  "is_Path (PyPath s) = True"
| "is_Path v = False"

text \<open>
  \<open>Path(val)\<close>: the constructor of the string subclass. A string or a \<open>Path\<close> gives the
  \<open>Path\<close> of the same text; \<open>None\<close> is rejected by the constructor (\<open>TypeError\<close>).
\<close>

fun Path :: "pyval \<Rightarrow> error + pyval" where
  "Path (PyStr s) = Inr (PyPath s)"
| "Path (PyPath s) = Inr (PyPath s)"
| "Path PyNone = Inl TypeError"

text \<open>
  A method of \<open>Path\<close> called on a value that is not a \<open>Path\<close> raises \<open>AttributeError\<close>
  (\<open>self.dir.files()\<close>, \<open>self.dir.makedirs_p()\<close>).
\<close>

fun as_Path :: "pyval \<Rightarrow> error + string" where
  "as_Path (PyPath s) = Inr s"
| "as_Path v = Inl AttributeError"

subsection \<open>The \<open>Path\<close> operations the class uses (POSIX flavour)\<close>

text \<open>
  \<open>Path.name\<close> is \<open>os.path.basename\<close>: \<open>p[p.rfind('/') + 1:]\<close>, the characters after the
  last slash.
\<close>

definition Path_name :: "string \<Rightarrow> string" where
  "Path_name p = rev (takeWhile (\<lambda>c. c \<noteq> CHR ''/'') (rev p))"

text \<open>
  \<open>Path.dirname()\<close> is \<open>os.path.dirname\<close>: \<open>head = p[:p.rfind('/') + 1]\<close>, and
  \<open>head.rstrip('/')\<close> unless \<open>head\<close> is empty or consists of slashes only.
\<close>

definition Path_dirname :: "string \<Rightarrow> string" where
  "Path_dirname p =
     (let head = rev (dropWhile (\<lambda>c. c \<noteq> CHR ''/'') (rev p))
      in if head \<noteq> [] \<and> head \<noteq> replicate (length head) (CHR ''/'')
         then rev (dropWhile (\<lambda>c. c = CHR ''/'') (rev head))
         else head)"

text \<open>
  \<open>Path.ext\<close> is the second component of \<open>os.path.splitext\<close>: the text from the last dot
  of the final segment on, provided some character other than a dot precedes that dot
  in the segment; otherwise the empty string. \<open>stem\<close> below is the final segment up to and
  including its last dot.
\<close>

definition Path_ext :: "string \<Rightarrow> string" where
  "Path_ext p =
     (let name = Path_name p;
          stem = rev (dropWhile (\<lambda>c. c \<noteq> CHR ''.'') (rev name))
      in if stem \<noteq> [] \<and> list_ex (\<lambda>c. c \<noteq> CHR ''.'') (butlast stem)
         then CHR ''.'' # rev (takeWhile (\<lambda>c. c \<noteq> CHR ''.'') (rev name))
         else [])"

text \<open>
  \<open>a / b\<close> on a \<open>Path\<close> is \<open>os.path.join(a, b)\<close>: an absolute \<open>b\<close> replaces \<open>a\<close>; otherwise
  \<open>b\<close> is appended, after a slash unless \<open>a\<close> is empty or already ends in one.
\<close>

definition Path_div :: "string \<Rightarrow> string \<Rightarrow> string" where
  "Path_div a b =
     (if b \<noteq> [] \<and> hd b = CHR ''/'' then b
      else if a = [] \<or> last a = CHR ''/'' then a @ b
      else a @ ''/'' @ b)"

subsection \<open>String operations of the language\<close>

text \<open>
  \<open>s.split(sep)\<close> for a non-empty separator: the pieces between the non-overlapping
  occurrences of \<open>sep\<close>, found left to right. (An empty separator raises in Python; every
  call in the module passes a literal, non-empty one.)
\<close>

fun py_split :: "string \<Rightarrow> string \<Rightarrow> string list" where
  "py_split sep [] = [[]]"
| "py_split sep (c # cs) =
     (if sep \<noteq> [] \<and> prefix sep (c # cs)
      then [] # py_split sep (drop (length sep) (c # cs))
      else (case py_split sep cs of
              w # ws \<Rightarrow> (c # w) # ws
            | [] \<Rightarrow> [[c]]))"

definition digit_char :: "nat \<Rightarrow> char" where
  "digit_char d = ''0123456789'' ! d"

text \<open>The decimal digits of a natural number, most significant first.\<close>

fun dec :: "nat \<Rightarrow> string" where
  "dec n = (if n < 10 then [digit_char n] else dec (n div 10) @ [digit_char (n mod 10)])"

declare dec.simps [simp del]

text \<open>
  The format specification \<open>03d\<close>: decimal, minimum width 3, padded with zeros between
  the sign and the digits. Wider numbers are rendered in full. (The interpreter's limit
  on the digits of a conversion, which \<open>py_literal\<close> below has for reading, applies to
  rendering too; it is not modelled here, so the rendering is that of numbers of at most
  4300 digits.)
\<close>

definition format_03d :: "int \<Rightarrow> string" where
  "format_03d v =
     (let sgn = (if v < 0 then ''-'' else '''');
          ds = dec (nat \<bar>v\<bar>)
      in sgn @ replicate (3 - length sgn - length ds) (CHR ''0'') @ ds)"

definition is_digit :: "char \<Rightarrow> bool" where
  "is_digit c = (48 \<le> (of_char c :: nat) \<and> (of_char c :: nat) \<le> 57)"

definition digit_val :: "char \<Rightarrow> int" where
  "digit_val c = int (of_char c) - 48"

text \<open>
  The characters below code point 256 that \<open>int\<close> strips from both ends of its
  argument: tab, line feed, vertical tab, form feed, carriage return and space, and of
  the characters beyond ASCII the two Unicode spaces, next line (133) and no-break space
  (160). The separators 28 to 31, which \<open>str.isspace\<close> accepts, are not stripped.
\<close>

definition is_space :: "char \<Rightarrow> bool" where
  "is_space c = ((of_char c :: nat) \<in> {9, 10, 11, 12, 13, 32, 133, 160})"

definition py_strip :: "string \<Rightarrow> string" where
  "py_strip s = rev (dropWhile is_space (rev (dropWhile is_space s)))"

text \<open>
  The digit part of an integer literal given to \<open>int\<close>: one or more digits, where a
  single underscore may stand between two digits. \<open>acc\<close> is the value read so far and
  \<open>ok\<close> says that the previous character was a digit.
\<close>

fun py_digits :: "int \<Rightarrow> bool \<Rightarrow> string \<Rightarrow> int option" where
  "py_digits acc ok [] = (if ok then Some acc else None)"
| "py_digits acc ok (c # cs) =
     (if is_digit c then py_digits (10 * acc + digit_val c) True cs
      else if c = CHR ''_'' \<and> ok then py_digits acc False cs
      else None)"

text \<open>
  The interpreter refuses to convert a string with more digits than
  \<open>sys.get_int_max_str_digits()\<close>, 4300 unless it is reconfigured. Leading zeros count,
  underscores do not.
\<close>

definition max_str_digits :: nat where
  "max_str_digits = 4300"

definition py_literal :: "string \<Rightarrow> int option" where
  "py_literal ds =
     (if length (filter is_digit ds) > max_str_digits then None
      else py_digits 0 False ds)"

text \<open>
  \<open>int(s)\<close> for a string, base 10: surrounding whitespace is dropped, one sign is
  allowed, the rest must be a digit part within the limit. \<open>None\<close> stands for the
  \<open>ValueError\<close>.
\<close>

definition py_int :: "string \<Rightarrow> int option" where
  "py_int s =
     (case py_strip s of
        [] \<Rightarrow> None
      | c # r \<Rightarrow>
          if c = CHR ''+'' then py_literal r
          else if c = CHR ''-'' then map_option uminus (py_literal r)
          else py_literal (c # r))"

subsection \<open>The class\<close>

text \<open>The attributes; \<open>priv_dir\<close> is the attribute \<open>_dir\<close> behind the property \<open>dir\<close>.\<close>

record scene_file =
  priv_dir :: pyval
  descriptor :: string
  version :: int
  ext :: string

text \<open>The property \<open>dir\<close>: the getter returns \<open>_dir\<close>, the setter stores \<open>Path(val)\<close>.\<close>

definition dir :: "scene_file \<Rightarrow> pyval" where
  "dir sf = priv_dir sf"

definition dir_setter :: "pyval \<Rightarrow> scene_file \<Rightarrow> (error + unit) \<times> scene_file" where
  "dir_setter val sf =
     (case Path val of
        Inl e \<Rightarrow> (Inl e, sf)
      | Inr p \<Rightarrow> (Inr (), sf\<lparr>priv_dir := p\<rparr>))"

text \<open>\<open>basename\<close>: the pattern \<open>"{descriptor}_{version:03d}.{ext}"\<close>, filled in.\<close>

definition basename :: "scene_file \<Rightarrow> string" where
  "basename sf = descriptor sf @ ''_'' @ format_03d (version sf) @ ''.'' @ ext sf"

text \<open>\<open>path\<close>: \<open>Path(self.dir) / self.basename()\<close>.\<close>

definition path :: "scene_file \<Rightarrow> error + pyval" where
  "path sf =
     (case Path (dir sf) of
        Inl e \<Rightarrow> Inl e
      | Inr p \<Rightarrow>
          (case as_Path p of
             Inl e \<Rightarrow> Inl e
           | Inr d \<Rightarrow> Inr (PyPath (Path_div d (basename sf)))))"

text \<open>
  \<open>_init_properties_from_path(path)\<close>, for a \<open>Path\<close> argument of text \<open>p\<close>. The four
  statements run in order, so an exception leaves the assignments made before it:
  \<^verbatim>\<open>
    self._dir = path.dirname()
    self.ext = path.ext[1:]
    self.descriptor, version = path.name.split("_")
    self.version = int(version.split(".")[0][1:])
  \<close>
  The unpacking raises \<open>ValueError\<close> unless the split gives exactly two pieces, and it
  does so before \<open>descriptor\<close> is assigned. The first piece of a split always exists.
\<close>

definition init_properties_from_path :: "string \<Rightarrow> scene_file \<Rightarrow> (error + unit) \<times> scene_file" where
  "init_properties_from_path p sf =
     (let sf1 = sf\<lparr>priv_dir := PyPath (Path_dirname p)\<rparr>;
          sf2 = sf1\<lparr>ext := tl (Path_ext p)\<rparr>
      in case py_split ''_'' (Path_name p) of
           [d, v] \<Rightarrow>
             (let sf3 = sf2\<lparr>descriptor := d\<rparr>
              in case py_int (tl (hd (py_split ''.'' v))) of
                   None \<Rightarrow> (Inl ValueError, sf3)
                 | Some n \<Rightarrow> (Inr (), sf3\<lparr>version := n\<rparr>))
         | _ \<Rightarrow> (Inl ValueError, sf2))"

subsection \<open>The host application\<close>

text \<open>
  The calls into pymel, over a host state \<open>'h\<close> that the module never inspects:
  \<^item> \<open>sceneName\<close>: the path of the open scene, empty when none is open;
  \<^item> \<open>saveAs\<close>: save the scene at a path; returns the saved path or raises, and may
    change the host either way;
  \<^item> \<open>makedirs_p\<close>: create a directory and its missing parents;
  \<^item> \<open>files\<close>: the paths of the files in a directory, or an error when it cannot be
    listed;
  \<^item> \<open>fnmatch name pattern\<close>: the glob match that \<open>Path.fnmatch\<close> applies to a file's
    name.
\<close>

record 'h host =
  sceneName :: "'h \<Rightarrow> string"
  saveAs :: "string \<Rightarrow> 'h \<Rightarrow> (error + string) \<times> 'h"
  makedirs_p :: "string \<Rightarrow> 'h \<Rightarrow> (error + unit) \<times> 'h"
  files :: "string \<Rightarrow> 'h \<Rightarrow> error + string list"
  fnmatch :: "string \<Rightarrow> string \<Rightarrow> bool"

text \<open>
  \<open>__init__(dir, descriptor, version, ext)\<close>: the attributes are set from the arguments;
  when the host has a scene open they are then read from its path. An exception leaves
  no object.
\<close>

definition SceneFile_init ::
  "'h host \<Rightarrow> 'h \<Rightarrow> pyval \<Rightarrow> string \<Rightarrow> int \<Rightarrow> string \<Rightarrow> error + scene_file" where
  "SceneFile_init H h dir_arg descriptor_arg version_arg ext_arg =
     (case Path dir_arg of
        Inl e \<Rightarrow> Inl e
      | Inr p \<Rightarrow>
          (let sf = \<lparr>priv_dir = p, descriptor = descriptor_arg,
                     version = version_arg, ext = ext_arg\<rparr>;
               scene = sceneName H h
           in if scene \<noteq> []
              then (case init_properties_from_path scene sf of
                      (Inl e, sf') \<Rightarrow> Inl e
                    | (Inr u, sf') \<Rightarrow> Inr sf')
              else Inr sf))"

text \<open>The constructor called with no arguments: the defaults of the signature.\<close>

definition SceneFile_default :: "'h host \<Rightarrow> 'h \<Rightarrow> error + scene_file" where
  "SceneFile_default H h = SceneFile_init H h (PyStr '''') ''main'' 1 ''ma''"

text \<open>
  \<open>save\<close>: the host saves at \<open>self.path()\<close>; a \<open>RuntimeError\<close> of that call is caught, the
  directory is created and the host is asked once more. Nothing is returned, so the
  value of a call that does not raise is \<open>None\<close>. (The warning written to the log in
  the handler is not modelled.)
\<close>

definition save :: "'h host \<Rightarrow> scene_file \<Rightarrow> 'h \<Rightarrow> (error + pyval) \<times> 'h" where
  "save H sf h =
     (case path sf of
        Inl e \<Rightarrow> (Inl e, h)
      | Inr pv \<Rightarrow>
          (case as_Path pv of
             Inl e \<Rightarrow> (Inl e, h)
           | Inr p \<Rightarrow>
               (case saveAs H p h of
                  (Inr saved, h1) \<Rightarrow> (Inr PyNone, h1)
                | (Inl (RuntimeError msg), h1) \<Rightarrow>
                    (case as_Path (dir sf) of
                       Inl e \<Rightarrow> (Inl e, h1)
                     | Inr d \<Rightarrow>
                         (case makedirs_p H d h1 of
                            (Inl e, h2) \<Rightarrow> (Inl e, h2)
                          | (Inr u, h2) \<Rightarrow>
                              (case saveAs H p h2 of
                                 (Inr saved, h3) \<Rightarrow> (Inr PyNone, h3)
                               | (Inl e, h3) \<Rightarrow> (Inl e, h3))))
                | (Inl e, h1) \<Rightarrow> (Inl e, h1))))"

text \<open>
  The version of one matched scene, \<open>int(scene.name.split("_v")[1].split(".")[0])\<close>:
  indexing the split at 1 raises \<open>IndexError\<close> when the name has no \<open>_v\<close>.
\<close>

definition scene_version :: "string \<Rightarrow> error + int" where
  "scene_version scene =
     (case py_split ''_v'' (Path_name scene) of
        a # b # rest \<Rightarrow>
          (case py_int (hd (py_split ''.'' b)) of
             None \<Rightarrow> Inl ValueError
           | Some n \<Rightarrow> Inr n)
      | _ \<Rightarrow> Inl IndexError)"

text \<open>A list comprehension whose element expression may raise: the first exception wins.\<close>

fun comprehend :: "('a \<Rightarrow> error + 'b) \<Rightarrow> 'a list \<Rightarrow> error + 'b list" where
  "comprehend f [] = Inr []"
| "comprehend f (x # xs) =
     (case f x of
        Inl e \<Rightarrow> Inl e
      | Inr y \<Rightarrow> (case comprehend f xs of Inl e \<Rightarrow> Inl e | Inr ys \<Rightarrow> Inr (y # ys)))"

definition matched_scenes :: "'h host \<Rightarrow> scene_file \<Rightarrow> string list \<Rightarrow> string list" where
  "matched_scenes H sf fs =
     filter (\<lambda>file. fnmatch H (Path_name file) (descriptor sf @ ''_v*.'' @ ext sf)) fs"

text \<open>
  \<open>next_avail_version\<close>: the directory is listed (twice; the host does not change in
  between), the files whose name matches \<open>"{descriptor}_v*.{ext}"\<close> are kept, their
  versions are read, made distinct and sorted, and the last one plus one is returned.
  \<open>versions[-1]\<close> raises \<open>IndexError\<close> on the empty list.
\<close>

definition next_avail_version :: "'h host \<Rightarrow> scene_file \<Rightarrow> 'h \<Rightarrow> error + int" where
  "next_avail_version H sf h =
     (case as_Path (dir sf) of
        Inl e \<Rightarrow> Inl e
      | Inr d \<Rightarrow>
          (case files H d h of
             Inl e \<Rightarrow> Inl e
           | Inr fs \<Rightarrow>
               (case comprehend scene_version (matched_scenes H sf fs) of
                  Inl e \<Rightarrow> Inl e
                | Inr versions \<Rightarrow>
                    (let sorted_versions = sort (remdups versions)
                     in if sorted_versions = [] then Inl IndexError
                        else Inr (last sorted_versions + 1)))))"

text \<open>
  \<open>increment_and_save\<close>: \<open>self.version = self.next_avail_version()\<close>, then
  \<open>self.save()\<close>, whose value is dropped. The object is returned as the call leaves it.
\<close>

definition increment_and_save ::
  "'h host \<Rightarrow> scene_file \<Rightarrow> 'h \<Rightarrow> (error + pyval) \<times> scene_file \<times> 'h" where
  "increment_and_save H sf h =
     (case next_avail_version H sf h of
        Inl e \<Rightarrow> (Inl e, sf, h)
      | Inr v \<Rightarrow>
          (let sf' = sf\<lparr>version := v\<rparr>
           in case save H sf' h of
                (Inl e, h') \<Rightarrow> (Inl e, sf', h')
              | (Inr r, h') \<Rightarrow> (Inr PyNone, sf', h')))"

subsection \<open>A host for worked examples\<close>

text \<open>
  The glob match of \<open>fnmatch\<close> on a POSIX system (case-sensitive), as the interpreter's
  \<open>fnmatch.translate\<close> defines it: \<open>*\<close> matches any run of characters, \<open>?\<close> any one
  character, \<open>[seq]\<close> one character of \<open>seq\<close>, \<open>[!seq]\<close> one character not in it; a
  \<open>[\<close> that is never closed stands for itself. In a bracket, a closing bracket that comes
  first belongs to the set.
\<close>

fun bracket_end :: "string \<Rightarrow> (string \<times> string) option" where
  "bracket_end [] = None"
| "bracket_end (c # cs) =
     (if c = CHR '']'' then Some ([], cs)
      else (case bracket_end cs of
              None \<Rightarrow> None
            | Some (body, rest) \<Rightarrow> Some (c # body, rest)))"

definition bracket :: "string \<Rightarrow> (bool \<times> string \<times> string) option" where
  "bracket ps =
     (let neg = (ps \<noteq> [] \<and> hd ps = CHR ''!'');
          ps1 = (if neg then tl ps else ps);
          first = (ps1 \<noteq> [] \<and> hd ps1 = CHR '']'');
          ps2 = (if first then tl ps1 else ps1)
      in case bracket_end ps2 of
           None \<Rightarrow> None
         | Some (body, rest) \<Rightarrow> Some (neg, (if first then '']'' else []) @ body, rest))"

text \<open>
  The text of a bracket is cut into chunks at the hyphens that stand for a range: the
  first character of the text is never such a hyphen, the two characters after such a
  hyphen are not either, and a hyphen that ends the text stays in its chunk. \<open>skip\<close>
  counts the characters still to be passed over.
\<close>

fun chunks_from :: "nat \<Rightarrow> string \<Rightarrow> string list" where
  "chunks_from skip [] = [[]]"
| "chunks_from skip (c # cs) =
     (if skip = 0 \<and> c = CHR ''-'' \<and> cs \<noteq> []
      then [] # chunks_from 2 cs
      else (case chunks_from (skip - 1) cs of
              w # ws \<Rightarrow> (c # w) # ws
            | [] \<Rightarrow> [[c]]))"

text \<open>
  Two neighbouring chunks stand for the range from the last character of the first to
  the first character of the second. An empty range is removed together with its two
  ends, going from the right to the left.
\<close>

fun drop_empty_ranges :: "string list \<Rightarrow> string list" where
  "drop_empty_ranges [] = []"
| "drop_empty_ranges [c1] = [c1]"
| "drop_empty_ranges (c1 # c2 # cs) =
     (case drop_empty_ranges (c2 # cs) of
        [] \<Rightarrow> [c1]
      | d # ds \<Rightarrow>
          if c1 \<noteq> [] \<and> d \<noteq> [] \<and> (of_char (hd d) :: nat) < of_char (last c1)
          then (butlast c1 @ tl d) # ds
          else c1 # d # ds)"

text \<open>
  The characters of a list of chunks: every character of a chunk, and the range between
  each chunk and the next. A hyphen that follows the end of a range, or that comes
  first, is an ordinary character.
\<close>

fun class_matches :: "string list \<Rightarrow> char \<Rightarrow> bool" where
  "class_matches [] c = False"
| "class_matches [c1] c = (c \<in> set c1)"
| "class_matches (c1 # c2 # rest) c =
     (if c1 = [] then c = CHR ''-'' \<or> class_matches (c2 # rest) c
      else c \<in> set (butlast c1)
           \<or> (c2 \<noteq> [] \<and> (of_char (last c1) :: nat) \<le> of_char c
                       \<and> (of_char c :: nat) \<le> of_char (hd c2))
           \<or> class_matches (tl c2 # rest) c)"

text \<open>
  One character against a bracket with the text \<open>body\<close>, negated when \<open>neg\<close>. The
  exclamation mark is part of the first chunk while the empty ranges are removed, and
  what is left decides: nothing left matches no character, a lone exclamation mark
  matches every character, a leading exclamation mark negates the rest.
\<close>

definition bracket_matches :: "bool \<Rightarrow> string \<Rightarrow> char \<Rightarrow> bool" where
  "bracket_matches neg body c =
     (let cs0 = chunks_from 1 body;
          cs1 = (if neg then (CHR ''!'' # hd cs0) # tl cs0 else cs0);
          cs = drop_empty_ranges cs1
      in if cs = [[]] then False
         else if cs = [''!''] then True
         else if cs \<noteq> [] \<and> hd cs \<noteq> [] \<and> hd (hd cs) = CHR ''!''
         then \<not> class_matches (tl (hd cs) # tl cs) c
         else class_matches cs c)"

function posix_fnmatch_from :: "string \<Rightarrow> string \<Rightarrow> bool" where
  "posix_fnmatch_from [] s = (s = [])"
| "posix_fnmatch_from (p # ps) [] = (p = CHR ''*'' \<and> posix_fnmatch_from ps [])"
| "posix_fnmatch_from (p # ps) (c # cs) =
     (if p = CHR ''*''
      then posix_fnmatch_from ps (c # cs) \<or> posix_fnmatch_from (p # ps) cs
      else if p = CHR ''?'' then posix_fnmatch_from ps cs
      else if p = CHR ''[''
      then (case bracket ps of
              None \<Rightarrow> c = CHR ''['' \<and> posix_fnmatch_from ps cs
            | Some (neg, body, rest) \<Rightarrow>
                bracket_matches neg body c \<and> posix_fnmatch_from rest cs)
      else p = c \<and> posix_fnmatch_from ps cs)"
  by pat_completeness auto
termination
  by (relation "measures [\<lambda>(p, s). length s, \<lambda>(p, s). length p]") auto

definition posix_fnmatch :: "string \<Rightarrow> string \<Rightarrow> bool" where
  "posix_fnmatch name pattern = posix_fnmatch_from pattern name"

text \<open>
  A small host: the open scene, the directories that exist, the files saved so far, a
  switch that makes every save fail although the directory exists, and the list of the
  calls received. The empty path among the directories stands for the current directory:
  a file can be saved there, but the empty path cannot be listed.
\<close>

datatype call = SaveAs string | Makedirs string

record disk =
  scene :: string
  folders :: "string list"
  stored :: "string list"
  readonly :: bool
  calls :: "call list"

definition disk_saveAs :: "string \<Rightarrow> disk \<Rightarrow> (error + string) \<times> disk" where
  "disk_saveAs p h =
     (let h1 = h\<lparr>calls := calls h @ [SaveAs p]\<rparr>
      in if Path_dirname p \<notin> set (folders h)
         then (Inl (RuntimeError ''missing directory''), h1)
         else if readonly h then (Inl (RuntimeError ''file is read-only''), h1)
         else (Inr p, h1\<lparr>scene := p, stored := stored h @ [p]\<rparr>))"

definition disk_makedirs_p :: "string \<Rightarrow> disk \<Rightarrow> (error + unit) \<times> disk" where
  "disk_makedirs_p d h =
     (Inr (), h\<lparr>calls := calls h @ [Makedirs d],
                 folders := (if d \<in> set (folders h) then folders h else folders h @ [d])\<rparr>)"

definition disk_files :: "string \<Rightarrow> disk \<Rightarrow> error + string list" where
  "disk_files d h =
     (if d \<noteq> [] \<and> d \<in> set (folders h)
      then Inr (filter (\<lambda>f. Path_dirname f = d) (stored h))
      else Inl (OSError ''no such directory''))"

definition disk_host :: "disk host" where
  "disk_host =
     \<lparr>sceneName = scene, saveAs = disk_saveAs, makedirs_p = disk_makedirs_p,
      files = disk_files, fnmatch = posix_fnmatch\<rparr>"

definition empty_disk :: disk where
  "empty_disk = \<lparr>scene = [], folders = [[]], stored = [], readonly = False, calls = []\<rparr>"

definition ship_disk :: "string list \<Rightarrow> bool \<Rightarrow> disk" where
  "ship_disk fs ro =
     \<lparr>scene = [], folders = [''/proj''], stored = fs, readonly = ro, calls = []\<rparr>"

definition ship :: "int \<Rightarrow> string \<Rightarrow> scene_file" where
  "ship v e = \<lparr>priv_dir = PyPath ''/proj'', descriptor = ''ship'', version = v, ext = e\<rparr>"

subsection \<open>Objects a caller can obtain\<close>

text \<open>
  The objects that exist at run time: built by the constructor, then changed by
  assignments to the public attributes (\<open>dir\<close> through its setter) and by the methods that
  write to the object. A call that raises half-way still leaves its earlier assignments,
  so the object after a failed call is reachable too.
\<close>

inductive reachable :: "'h host \<Rightarrow> scene_file \<Rightarrow> bool" for H :: "'h host" where
  constructed:
    "SceneFile_init H h dir_arg descriptor_arg version_arg ext_arg = Inr sf \<Longrightarrow> reachable H sf"
| dir_assigned:
    "reachable H sf \<Longrightarrow> dir_setter val sf = (r, sf') \<Longrightarrow> reachable H sf'"
| descriptor_assigned:
    "reachable H sf \<Longrightarrow> reachable H (sf\<lparr>descriptor := x\<rparr>)"
| version_assigned:
    "reachable H sf \<Longrightarrow> reachable H (sf\<lparr>version := n\<rparr>)"
| ext_assigned:
    "reachable H sf \<Longrightarrow> reachable H (sf\<lparr>ext := x\<rparr>)"
| parsed:
    "reachable H sf \<Longrightarrow> init_properties_from_path p sf = (r, sf') \<Longrightarrow> reachable H sf'"
| incremented:
    "reachable H sf \<Longrightarrow> increment_and_save H sf h = (r, sf', h') \<Longrightarrow> reachable H sf'"

section \<open>Properties\<close>

subsection \<open>Evaluation on concrete inputs\<close>

lemma replicate_numeral_unfold:
  "replicate (numeral k) x = x # replicate (pred_numeral k) x"
  by (simp add: numeral_eq_Suc)

lemmas string_defs =
  Path_name_def Path_dirname_def Path_ext_def Path_div_def digit_char_def format_03d_def
  is_digit_def digit_val_def is_space_def py_strip_def py_int_def replicate_numeral_unfold
  py_literal_def max_str_digits_def
  dec.simps

lemmas class_defs =
  dir_def dir_setter_def basename_def path_def init_properties_from_path_def
  SceneFile_init_def SceneFile_default_def save_def scene_version_def matched_scenes_def
  next_avail_version_def increment_and_save_def

lemmas disk_defs =
  bracket_def bracket_matches_def posix_fnmatch_def disk_saveAs_def disk_makedirs_p_def disk_files_def
  disk_host_def empty_disk_def ship_disk_def ship_def

text \<open>
  The glob match on the pattern of the examples and on brackets, among them one whose
  only range is empty.
\<close>

lemma posix_fnmatch_examples:
  "posix_fnmatch ''ship_v001.ma'' ''ship_v*.ma''
   \<and> \<not> posix_fnmatch ''ship_v001.mb'' ''ship_v*.ma''
   \<and> \<not> posix_fnmatch ''boat_v001.ma'' ''ship_v*.ma''
   \<and> posix_fnmatch ''ship_v001.ma'' ''sh[a-i]p_v?0*.ma''
   \<and> \<not> posix_fnmatch ''ship_v001.ma'' ''sh[!a-i]p_v*.ma''
   \<and> posix_fnmatch ''sh[p_v001.ma'' ''sh[p_v*.ma''
   \<and> posix_fnmatch ''sx_v004.ma'' ''s[c-a!]_v*.ma''
   \<and> \<not> posix_fnmatch ''sx_v004.ma'' ''s[c-a]_v*.ma''"
  by (simp add: disk_defs)

text \<open>
  \<open>int\<close> on strings with characters around the digits: a separator (28 to 31) is not
  whitespace for it, tab, space, next line and no-break space are.
\<close>

lemma py_int_examples:
  "py_int (CHR 0x1C # ''7'') = None \<and> py_int (''7'' @ [CHR 0x1F]) = None
   \<and> py_int (CHR 0xA0 # ''7'' @ [CHR 0x85]) = Some 7
   \<and> py_int (CHR 0x09 # '' 007 '') = Some 7
   \<and> py_int ''-1_000'' = Some (- 1000) \<and> py_int ''1__0'' = None
   \<and> py_int ''final'' = None \<and> py_int [] = None"
  by (simp add: string_defs)

subsection \<open>Composition of the name\<close>

text \<open>
  C1. The claim: the name composed by \<open>basename\<close> embeds the version as the marker \<open>v\<close>
  followed by the zero-padded decimal, so that version 7 gives the segment \<open>_v007\<close> and
  version 1000 gives \<open>_v1000\<close>. The code pads and never truncates, but its pattern has no
  marker: the segments are \<open>_007\<close> and \<open>_1000\<close>.
\<close>

theorem basename_renders_no_marker:
  "basename (ship 7 ''ma'') = ''ship_007.ma'' \<and> basename (ship 1000 ''ma'') = ''ship_1000.ma''"
  by (simp add: basename_def ship_def string_defs)

text \<open>
  C5. The claim: built with no arguments while the host has no scene open, the object
  has the directory \<open>''\<close>, the descriptor \<open>main\<close>, the version 1 and the extension \<open>ma\<close>,
  and \<open>basename\<close> returns \<open>main_v001.ma\<close>. The defaults are as claimed; the name the code
  returns is \<open>main_001.ma\<close>.
\<close>

lemma SceneFile_default_no_scene:
  "sceneName H h = [] \<Longrightarrow>
   SceneFile_default H h =
     Inr \<lparr>priv_dir = PyPath [], descriptor = ''main'', version = 1, ext = ''ma''\<rparr>"
  by (simp add: SceneFile_default_def SceneFile_init_def)

theorem default_object_basename:
  "SceneFile_default disk_host empty_disk =
     Inr \<lparr>priv_dir = PyPath [], descriptor = ''main'', version = 1, ext = ''ma''\<rparr>
   \<and> basename \<lparr>priv_dir = PyPath [], descriptor = ''main'', version = 1, ext = ''ma''\<rparr>
       = ''main_001.ma''"
  by (simp add: SceneFile_default_no_scene disk_host_def empty_disk_def basename_def string_defs)

subsection \<open>Saving\<close>

lemma path_of_Path_dir:
  "dir sf = PyPath d \<Longrightarrow> path sf = Inr (PyPath (Path_div d (basename sf)))"
  by (simp add: path_def)

text \<open>
  C7, as amended. \<open>save\<close> asks the host to save at the composed path. When that call
  raises a \<open>RuntimeError\<close> (the class in which the host reports a missing directory, and
  any other failure of that class alike), the directory tree is created and the host is
  asked exactly once more; an exception of the directory creation or of the second
  attempt goes to the caller. An exception of the first attempt that is not a
  \<open>RuntimeError\<close> goes to the caller at once. Here \<open>r1\<close>, \<open>r2\<close>, \<open>r3\<close> name what the host
  answers to the first save, to the directory creation and to the second save.
\<close>

theorem save_catches_RuntimeError_once:
  assumes "dir sf = PyPath d"
    and "saveAs H (Path_div d (basename sf)) h = (r1, h1)"
    and "makedirs_p H d h1 = (r2, h2)"
    and "saveAs H (Path_div d (basename sf)) h2 = (r3, h3)"
  shows "save H sf h =
     (case r1 of
        Inr saved \<Rightarrow> (Inr PyNone, h1)
      | Inl (RuntimeError msg) \<Rightarrow>
          (case r2 of
             Inl e \<Rightarrow> (Inl e, h2)
           | Inr u \<Rightarrow> (case r3 of Inr saved \<Rightarrow> (Inr PyNone, h3) | Inl e \<Rightarrow> (Inl e, h3)))
      | Inl e \<Rightarrow> (Inl e, h1))"
  using assms
  by (simp add: save_def path_of_Path_dir split: sum.splits error.splits)

text \<open>
  The missing directory: the first save fails, \<open>/proj\<close> is created, the second save
  succeeds, and these three calls are all the host receives.
\<close>

theorem save_catches_RuntimeError_once_witness:
  "fst (saveAs disk_host ''/proj/ship_001.ma'' empty_disk)
     = Inl (RuntimeError ''missing directory'')
   \<and> fst (save disk_host (ship 1 ''ma'') empty_disk) = Inr PyNone
   \<and> calls (snd (save disk_host (ship 1 ''ma'') empty_disk))
       = [SaveAs ''/proj/ship_001.ma'', Makedirs ''/proj'', SaveAs ''/proj/ship_001.ma'']
   \<and> stored (snd (save disk_host (ship 1 ''ma'') empty_disk)) = [''/proj/ship_001.ma'']"
proof -
  have d: "dir (ship 1 ''ma'') = PyPath ''/proj''"
    by (simp add: dir_def ship_def)
  note run = save_catches_RuntimeError_once
    [OF d surjective_pairing surjective_pairing surjective_pairing,
     where H = disk_host and h = empty_disk]
  show ?thesis
    unfolding run by (simp add: basename_def string_defs disk_defs)
qed

text \<open>
  The claim C7 as stated also says that a host failure other than a missing directory
  is not caught. Here the directory exists and the host refuses to write; the handler
  runs all the same: the directory creation and a second save follow.
\<close>

theorem save_catches_other_host_failure:
  "Path_dirname ''/proj/ship_001.ma'' \<in> set (folders (ship_disk [] True))
   \<and> fst (saveAs disk_host ''/proj/ship_001.ma'' (ship_disk [] True))
       = Inl (RuntimeError ''file is read-only'')
   \<and> calls (snd (save disk_host (ship 1 ''ma'') (ship_disk [] True)))
       = [SaveAs ''/proj/ship_001.ma'', Makedirs ''/proj'', SaveAs ''/proj/ship_001.ma'']"
  by (simp add: class_defs string_defs disk_defs)

text \<open>
  C10. \<open>save\<close> has no return statement: whenever it or \<open>increment_and_save\<close> returns
  instead of raising, the value is \<open>None\<close>, never the saved path.
\<close>

theorem save_returns_None:
  assumes "fst (save H sf h) = Inr v \<or> fst (increment_and_save H sf h) = Inr v"
  shows "v = PyNone"
  using assms
proof
  assume "fst (save H sf h) = Inr v"
  then show ?thesis
    by (auto simp: save_def split: sum.splits error.splits prod.splits)
next
  assume "fst (increment_and_save H sf h) = Inr v"
  then show ?thesis
    by (auto simp: increment_and_save_def Let_def split: sum.splits prod.splits)
qed

theorem save_returns_None_witness:
  "fst (save disk_host (ship 1 ''ma'') empty_disk) = Inr PyNone
   \<and> fst (save disk_host (ship 1 ''ma'') empty_disk) \<noteq> Inr (PyPath ''/proj/ship_001.ma'')"
proof -
  have "\<exists>v. fst (save disk_host (ship 1 ''ma'') empty_disk) = Inr v"
    by (simp add: class_defs string_defs disk_defs)
  then obtain v where v: "fst (save disk_host (ship 1 ''ma'') empty_disk) = Inr v" ..
  have "v = PyNone"
    by (rule save_returns_None [OF disjI1 [OF v]])
  with v show ?thesis by simp
qed

text \<open>
  C8. \<open>increment_and_save\<close> assigns the resolved version before it saves and does not
  undo the assignment: when the resolution gives \<open>v\<close> and the save then raises \<open>e\<close>, the
  call raises \<open>e\<close> and leaves the object with \<open>version = v\<close>.
\<close>

theorem increment_and_save_keeps_version_on_failure:
  assumes "next_avail_version H sf h = Inr v"
    and "save H (sf\<lparr>version := v\<rparr>) h = (Inl e, h')"
  shows "increment_and_save H sf h = (Inl e, sf\<lparr>version := v\<rparr>, h')"
  using assms by (simp add: increment_and_save_def)

text \<open>
  One earlier version on a disk that refuses to write: the version moves from 1 to 2,
  the call raises, and the files on the disk are the ones that were there before.
\<close>

theorem increment_and_save_keeps_version_on_failure_witness:
  "next_avail_version disk_host (ship 1 ''ma'') (ship_disk [''/proj/ship_v001.ma''] True) = Inr 2
   \<and> fst (increment_and_save disk_host (ship 1 ''ma'') (ship_disk [''/proj/ship_v001.ma''] True))
       = Inl (RuntimeError ''file is read-only'')
   \<and> fst (snd (increment_and_save disk_host (ship 1 ''ma'')
                  (ship_disk [''/proj/ship_v001.ma''] True)))
       = ship 2 ''ma''
   \<and> stored (snd (snd (increment_and_save disk_host (ship 1 ''ma'')
                  (ship_disk [''/proj/ship_v001.ma''] True))))
       = [''/proj/ship_v001.ma'']"
proof -
  let ?D = "ship_disk [''/proj/ship_v001.ma''] True"
  have a: "next_avail_version disk_host (ship 1 ''ma'') ?D = Inr 2"
    by (simp add: class_defs string_defs disk_defs)
  have "fst (save disk_host ((ship 1 ''ma'')\<lparr>version := 2\<rparr>) ?D)
          = Inl (RuntimeError ''file is read-only'')"
    by (simp add: class_defs string_defs disk_defs)
  then have b: "save disk_host ((ship 1 ''ma'')\<lparr>version := 2\<rparr>) ?D
          = (Inl (RuntimeError ''file is read-only''),
             snd (save disk_host ((ship 1 ''ma'')\<lparr>version := 2\<rparr>) ?D))"
    by (simp add: prod_eq_iff)
  have c: "stored (snd (save disk_host ((ship 1 ''ma'')\<lparr>version := 2\<rparr>) ?D))
          = [''/proj/ship_v001.ma'']"
    by (simp add: class_defs string_defs disk_defs)
  have e: "(ship 1 ''ma'')\<lparr>version := 2\<rparr> = ship 2 ''ma''"
    by (simp add: ship_def)
  show ?thesis
    using a c e increment_and_save_keeps_version_on_failure [OF a b] by simp
qed

subsection \<open>Resolution of the next version\<close>

text \<open>
  C4. When the directory can be listed and no file of the listing matches the glob
  \<open>{descriptor}_v*.{ext}\<close>, \<open>next_avail_version\<close> raises the \<open>IndexError\<close> of indexing the
  empty list.
\<close>

theorem next_avail_version_no_match:
  assumes "dir sf = PyPath d"
    and "files H d h = Inr fs"
    and "matched_scenes H sf fs = []"
  shows "next_avail_version H sf h = Inl IndexError"
  using assms by (simp add: next_avail_version_def)

theorem next_avail_version_no_match_witness:
  "dir (ship 1 ''ma'') = PyPath ''/proj''
   \<and> files disk_host ''/proj'' (ship_disk [''/proj/boat_v001.ma''] False)
       = Inr [''/proj/boat_v001.ma'']
   \<and> matched_scenes disk_host (ship 1 ''ma'') [''/proj/boat_v001.ma''] = []
   \<and> next_avail_version disk_host (ship 1 ''ma'') (ship_disk [''/proj/boat_v001.ma''] False)
       = Inl IndexError"
proof -
  have a: "dir (ship 1 ''ma'') = PyPath ''/proj''"
    by (simp add: dir_def ship_def)
  have b: "files disk_host ''/proj'' (ship_disk [''/proj/boat_v001.ma''] False)
             = Inr [''/proj/boat_v001.ma'']"
    by (simp add: string_defs disk_defs)
  have c: "matched_scenes disk_host (ship 1 ''ma'') [''/proj/boat_v001.ma''] = []"
    by (simp add: matched_scenes_def string_defs disk_defs)
  show ?thesis
    by (intro conjI a b c next_avail_version_no_match [OF a b c])
qed

lemma comprehend_all_Inr:
  "(\<And>x. x \<in> set xs \<Longrightarrow> f x = Inr (g x)) \<Longrightarrow> comprehend f xs = Inr (map g xs)"
  by (induction xs) simp_all

lemma last_sorted_Max:
  fixes xs :: "int list"
  shows "sorted xs \<Longrightarrow> xs \<noteq> [] \<Longrightarrow> last xs = Max (set xs)"
proof (induction xs)
  case Nil
  then show ?case by simp
next
  case (Cons a xs)
  show ?case
  proof (cases "xs = []")
    case True
    then show ?thesis by simp
  next
    case False
    with Cons have "last xs = Max (set xs)" by simp
    moreover from Cons.prems False have "a \<le> Max (set xs)"
      by (metis List.finite_set Max_ge_iff last_in_set set_empty sorted_simps(2) calculation)
    ultimately show ?thesis using False by (simp add: max_def)
  qed
qed

lemma last_sort_remdups:
  fixes xs :: "int list"
  assumes "xs \<noteq> []"
  shows "last (sort (remdups xs)) = Max (set xs)"
proof -
  have "sort (remdups xs) \<noteq> []" using assms
    by (metis set_empty set_remdups set_sort)
  then have "last (sort (remdups xs)) = Max (set (sort (remdups xs)))"
    by (intro last_sorted_Max) simp_all
  then show ?thesis by simp
qed

text \<open>
  C3, as amended. When the directory can be listed, at least one file name matches the
  glob \<open>{descriptor}_v*.{ext}\<close>, and for every matching name the text between its first
  \<open>_v\<close> and the following dot is accepted by \<open>int\<close> (\<open>ver\<close> names the integer read
  from each), \<open>next_avail_version\<close> returns one plus the maximum of those integers;
  equal versions count once.
\<close>

theorem next_avail_version_max_plus_one:
  assumes "dir sf = PyPath d"
    and "files H d h = Inr fs"
    and "matched_scenes H sf fs \<noteq> []"
    and "\<forall>scene \<in> set (matched_scenes H sf fs). scene_version scene = Inr (ver scene)"
  shows "next_avail_version H sf h = Inr (Max (ver ` set (matched_scenes H sf fs)) + 1)"
proof -
  let ?ms = "matched_scenes H sf fs"
  have c: "comprehend scene_version ?ms = Inr (map ver ?ms)"
    using assms(4) by (intro comprehend_all_Inr) simp
  have ne: "map ver ?ms \<noteq> []" using assms(3) by simp
  then have s: "sort (remdups (map ver ?ms)) \<noteq> []"
    by (metis set_empty set_remdups set_sort)
  have "last (sort (remdups (map ver ?ms))) = Max (set (map ver ?ms))"
    using ne by (rule last_sort_remdups)
  then show ?thesis
    using assms(1,2) c s by (simp add: next_avail_version_def Let_def)
qed

text \<open>
  The directory of the example: \<open>ship_v001.ma\<close> and \<open>ship_v003.ma\<close> twice resolve to 4.
\<close>

theorem next_avail_version_max_plus_one_witness:
  "matched_scenes disk_host (ship 1 ''ma'')
      [''/proj/ship_v001.ma'', ''/proj/ship_v003.ma'', ''/proj/ship_v003.ma'']
     = [''/proj/ship_v001.ma'', ''/proj/ship_v003.ma'', ''/proj/ship_v003.ma'']
   \<and> scene_version ''/proj/ship_v001.ma'' = Inr 1
   \<and> scene_version ''/proj/ship_v003.ma'' = Inr 3
   \<and> next_avail_version disk_host (ship 1 ''ma'')
        (ship_disk [''/proj/ship_v001.ma'', ''/proj/ship_v003.ma'', ''/proj/ship_v003.ma''] False)
       = Inr 4"
proof -
  let ?fs = "[''/proj/ship_v001.ma'', ''/proj/ship_v003.ma'', ''/proj/ship_v003.ma'']"
  let ?ver = "\<lambda>scene. if scene = ''/proj/ship_v001.ma'' then 1 else (3::int)"
  have a: "dir (ship 1 ''ma'') = PyPath ''/proj''"
    by (simp add: dir_def ship_def)
  have b: "files disk_host ''/proj'' (ship_disk ?fs False) = Inr ?fs"
    by (simp add: string_defs disk_defs)
  have m: "matched_scenes disk_host (ship 1 ''ma'') ?fs = ?fs"
    by (simp add: matched_scenes_def string_defs disk_defs)
  have v1: "scene_version ''/proj/ship_v001.ma'' = Inr 1"
    by (simp add: scene_version_def string_defs)
  have v3: "scene_version ''/proj/ship_v003.ma'' = Inr 3"
    by (simp add: scene_version_def string_defs)
  have c: "matched_scenes disk_host (ship 1 ''ma'') ?fs \<noteq> []"
    by (simp add: m)
  have e: "\<forall>scene \<in> set (matched_scenes disk_host (ship 1 ''ma'') ?fs).
             scene_version scene = Inr (?ver scene)"
    by (simp add: m v1 v3)
  have "next_avail_version disk_host (ship 1 ''ma'') (ship_disk ?fs False)
          = Inr (Max (?ver ` set (matched_scenes disk_host (ship 1 ''ma'') ?fs)) + 1)"
    by (rule next_avail_version_max_plus_one [OF a b c e])
  then have "next_avail_version disk_host (ship 1 ''ma'') (ship_disk ?fs False) = Inr 4"
    by (simp add: m)
  with m v1 v3 show ?thesis by simp
qed

text \<open>
  The claim C3 as stated asks only for one matching name. A name that matches the glob
  and carries no integer makes the call raise instead of returning.
\<close>

theorem next_avail_version_unparsable_match:
  "matched_scenes disk_host (ship 1 ''ma'') [''/proj/ship_v001.ma'', ''/proj/ship_vfinal.ma'']
     = [''/proj/ship_v001.ma'', ''/proj/ship_vfinal.ma'']
   \<and> next_avail_version disk_host (ship 1 ''ma'')
        (ship_disk [''/proj/ship_v001.ma'', ''/proj/ship_vfinal.ma''] False)
       = Inl ValueError"
  by (simp add: class_defs string_defs disk_defs)

text \<open>
  So does a matching name whose digits follow a character that \<open>int\<close> does not strip.
\<close>

lemma next_avail_version_separator:
  "scene_version (''/proj/ship_v'' @ CHR 0x1C # ''7.ma'') = Inl ValueError
   \<and> next_avail_version disk_host (ship 1 ''ma'')
        (ship_disk [''/proj/ship_v'' @ CHR 0x1C # ''7.ma''] False) = Inl ValueError"
  by (simp add: class_defs string_defs disk_defs)

subsection \<open>The directory attribute\<close>

lemma Path_is_Path: "Path v = Inr p \<Longrightarrow> is_Path p"
  by (cases v) auto

lemma dir_setter_is_Path:
  "dir_setter val sf = (r, sf') \<Longrightarrow> is_Path (priv_dir sf) \<Longrightarrow> is_Path (priv_dir sf')"
  by (auto simp: dir_setter_def split: sum.splits dest: Path_is_Path)

lemma init_properties_from_path_is_Path:
  "init_properties_from_path p sf = (r, sf') \<Longrightarrow> is_Path (priv_dir sf')"
  by (auto simp: init_properties_from_path_def Let_def split: list.splits option.splits)

lemma SceneFile_init_is_Path:
  "SceneFile_init H h a b c d = Inr sf \<Longrightarrow> is_Path (priv_dir sf)"
  by (auto simp: SceneFile_init_def Let_def split: sum.splits if_splits prod.splits
           dest: Path_is_Path init_properties_from_path_is_Path)

lemma increment_and_save_dir:
  "increment_and_save H sf h = (r, sf', h') \<Longrightarrow> priv_dir sf' = priv_dir sf"
  by (auto simp: increment_and_save_def Let_def split: sum.splits prod.splits)

text \<open>
  C9. The stored directory of every object a caller can obtain is a \<open>Path\<close>: the
  constructor and the setter of \<open>dir\<close> store the result of the \<open>Path\<close> constructor (or
  raise and store nothing), parsing a scene path stores the \<open>Path\<close> that its \<open>dirname\<close>
  returns, and no other operation writes the attribute.
\<close>

theorem dir_is_always_a_Path:
  assumes "reachable H sf"
  shows "is_Path (dir sf)"
  using assms
proof (induction rule: reachable.induct)
  case (constructed h dir_arg descriptor_arg version_arg ext_arg sf)
  then show ?case by (simp add: dir_def SceneFile_init_is_Path)
next
  case (dir_assigned sf val r sf')
  then show ?case by (simp add: dir_def dir_setter_is_Path)
next
  case (parsed sf p r sf')
  then show ?case by (simp add: dir_def init_properties_from_path_is_Path)
next
  case (incremented sf h r sf' h')
  then show ?case by (simp add: dir_def increment_and_save_dir)
qed (simp_all add: dir_def)

theorem dir_is_always_a_Path_witness:
  "reachable disk_host \<lparr>priv_dir = PyPath ''/proj'', descriptor = ''main'', version = 1, ext = ''ma''\<rparr>
   \<and> is_Path (dir \<lparr>priv_dir = PyPath ''/proj'', descriptor = ''main'', version = 1, ext = ''ma''\<rparr>)"
proof -
  have "SceneFile_init disk_host empty_disk (PyStr []) ''main'' 1 ''ma''
          = Inr \<lparr>priv_dir = PyPath [], descriptor = ''main'', version = 1, ext = ''ma''\<rparr>"
    by (simp add: SceneFile_init_def disk_host_def empty_disk_def)
  then have a: "reachable disk_host
          \<lparr>priv_dir = PyPath [], descriptor = ''main'', version = 1, ext = ''ma''\<rparr>"
    by (rule reachable.constructed)
  have "dir_setter (PyStr ''/proj'')
          \<lparr>priv_dir = PyPath [], descriptor = ''main'', version = 1, ext = ''ma''\<rparr>
        = (Inr (), \<lparr>priv_dir = PyPath ''/proj'', descriptor = ''main'', version = 1, ext = ''ma''\<rparr>)"
    by (simp add: dir_setter_def)
  with a have b: "reachable disk_host
          \<lparr>priv_dir = PyPath ''/proj'', descriptor = ''main'', version = 1, ext = ''ma''\<rparr>"
    by (rule reachable.dir_assigned)
  show ?thesis
    by (intro conjI b dir_is_always_a_Path [OF b])
qed

subsection \<open>Parsing a scene path\<close>

lemma py_split_nonempty: "py_split sep s \<noteq> []"
  by (induction sep s rule: py_split.induct) (auto split: list.splits)

lemma py_split_char_absent:
  "c \<notin> set s \<Longrightarrow> py_split [c] s = [s]"
  by (induction s) auto

lemma py_split_char_first:
  "c \<notin> set a \<Longrightarrow> py_split [c] (a @ c # b) = a # py_split [c] b"
  by (induction a) auto

lemma length_py_split_char:
  "length (py_split [c] s) = Suc (count_list s c)"
proof (induction s)
  case Nil
  then show ?case by simp
next
  case (Cons x s)
  then show ?case
    using py_split_nonempty [of "[c]" s] by (auto split: list.splits)
qed

lemma hd_py_split_char:
  "hd (py_split [c] s) = takeWhile (\<lambda>x. x \<noteq> c) s"
proof (induction s)
  case Nil
  then show ?case by simp
next
  case (Cons x s)
  then show ?case
    using py_split_nonempty [of "[c]" s] by (auto split: list.splits)
qed

lemma split_at_first:
  "c \<in> set s \<Longrightarrow> s = takeWhile (\<lambda>x. x \<noteq> c) s @ c # tl (dropWhile (\<lambda>x. x \<noteq> c) s)"
  by (induction s) auto

lemma count_list_one_rest:
  assumes "count_list s c = 1"
  shows "c \<in> set s \<and> c \<notin> set (tl (dropWhile (\<lambda>x. x \<noteq> c) s))"
  using assms
proof (induction s)
  case Nil
  then show ?case by simp
next
  case (Cons x s)
  then show ?case
    by (auto simp: count_list_0_iff split: if_splits)
qed

lemma py_split_char_once:
  assumes "count_list s c = 1"
  shows "py_split [c] s = [takeWhile (\<lambda>x. x \<noteq> c) s, tl (dropWhile (\<lambda>x. x \<noteq> c) s)]"
proof -
  let ?a = "takeWhile (\<lambda>x. x \<noteq> c) s" and ?b = "tl (dropWhile (\<lambda>x. x \<noteq> c) s)"
  from count_list_one_rest [OF assms] have in_s: "c \<in> set s" and out_b: "c \<notin> set ?b"
    by simp_all
  have "c \<notin> set ?a" by (auto dest: set_takeWhileD)
  then have "py_split [c] (?a @ c # ?b) = ?a # py_split [c] ?b"
    by (rule py_split_char_first)
  also have "py_split [c] ?b = [?b]" using out_b by (rule py_split_char_absent)
  finally show ?thesis using split_at_first [OF in_s] by simp
qed

lemma unpack_two_fails:
  "length xs \<noteq> 2 \<Longrightarrow> (case xs of [d, v] \<Rightarrow> f d v | _ \<Rightarrow> g) = g"
  by (auto split: list.splits)

text \<open>
  C6, as amended. Parsing raises \<open>ValueError\<close> whenever the final segment of the path
  does not contain exactly one underscore, or the version segment (the text after the
  underscore up to the first dot, without its first character) is not accepted by
  \<open>int\<close>. A missing dot is not a reason to fail.
\<close>

theorem init_properties_from_path_raises:
  assumes "count_list (Path_name p) (CHR ''_'') \<noteq> 1
     \<or> py_int (tl (takeWhile (\<lambda>c. c \<noteq> CHR ''.'')
                      (tl (dropWhile (\<lambda>c. c \<noteq> CHR ''_'') (Path_name p))))) = None"
  shows "fst (init_properties_from_path p sf) = Inl ValueError"
proof (cases "count_list (Path_name p) (CHR ''_'') = 1")
  case False
  then have "length (py_split ''_'' (Path_name p)) \<noteq> 2"
    by (simp add: length_py_split_char)
  then show ?thesis
    by (simp add: init_properties_from_path_def Let_def unpack_two_fails)
next
  case True
  with assms have n: "py_int (tl (takeWhile (\<lambda>c. c \<noteq> CHR ''.'')
                      (tl (dropWhile (\<lambda>c. c \<noteq> CHR ''_'') (Path_name p))))) = None"
    by simp
  show ?thesis
    by (simp add: init_properties_from_path_def Let_def py_split_char_once [OF True]
                  hd_py_split_char n)
qed

text \<open>Otherwise parsing returns, with the four attributes read from the path.\<close>

lemma init_properties_from_path_returns:
  assumes "count_list (Path_name p) (CHR ''_'') = 1"
    and "py_int (tl (takeWhile (\<lambda>c. c \<noteq> CHR ''.'')
                      (tl (dropWhile (\<lambda>c. c \<noteq> CHR ''_'') (Path_name p))))) = Some n"
  shows "init_properties_from_path p sf =
     (Inr (), sf\<lparr>priv_dir := PyPath (Path_dirname p), ext := tl (Path_ext p),
                 descriptor := takeWhile (\<lambda>c. c \<noteq> CHR ''_'') (Path_name p),
                 version := n\<rparr>)"
  by (simp add: init_properties_from_path_def Let_def py_split_char_once [OF assms(1)]
                hd_py_split_char assms(2))

theorem init_properties_from_path_raises_witness:
  "count_list (Path_name ''/proj/ship.ma'') (CHR ''_'') \<noteq> 1
   \<and> fst (init_properties_from_path ''/proj/ship.ma'' (ship 1 ''ma'')) = Inl ValueError
   \<and> py_int (tl (takeWhile (\<lambda>c. c \<noteq> CHR ''.'')
                  (tl (dropWhile (\<lambda>c. c \<noteq> CHR ''_'') (Path_name ''/proj/ship_vfinal.ma'')))))
       = None
   \<and> fst (init_properties_from_path ''/proj/ship_vfinal.ma'' (ship 1 ''ma'')) = Inl ValueError
   \<and> py_int (tl (takeWhile (\<lambda>c. c \<noteq> CHR ''.'')
                  (tl (dropWhile (\<lambda>c. c \<noteq> CHR ''_'')
                        (Path_name (''/proj/ship_v'' @ CHR 0x1C # ''7.ma''))))))
       = None
   \<and> fst (init_properties_from_path (''/proj/ship_v'' @ CHR 0x1C # ''7.ma'') (ship 1 ''ma''))
       = Inl ValueError"
proof -
  have a: "count_list (Path_name ''/proj/ship.ma'') (CHR ''_'') \<noteq> 1"
    by (simp add: string_defs)
  have b: "py_int (tl (takeWhile (\<lambda>c. c \<noteq> CHR ''.'')
                  (tl (dropWhile (\<lambda>c. c \<noteq> CHR ''_'') (Path_name ''/proj/ship_vfinal.ma'')))))
       = None"
    by (simp add: string_defs)
  have c: "py_int (tl (takeWhile (\<lambda>c. c \<noteq> CHR ''.'')
                  (tl (dropWhile (\<lambda>c. c \<noteq> CHR ''_'')
                        (Path_name (''/proj/ship_v'' @ CHR 0x1C # ''7.ma''))))))
       = None"
    by (simp add: string_defs)
  show ?thesis
    by (intro conjI a b c init_properties_from_path_raises [OF disjI1 [OF a]]
              init_properties_from_path_raises [OF disjI2 [OF b]]
              init_properties_from_path_raises [OF disjI2 [OF c]])
qed

text \<open>
  The claim C6 as stated also makes a dot after the underscore a condition. Without one
  the version segment is the whole remainder, and parsing returns.
\<close>

theorem init_properties_from_path_without_dot:
  "CHR ''.'' \<notin> set ''main_v001''
   \<and> init_properties_from_path ''main_v001'' (ship 7 ''ma'')
       = (Inr (), \<lparr>priv_dir = PyPath [], descriptor = ''main'', version = 1, ext = []\<rparr>)"
  by (simp add: init_properties_from_path_def ship_def string_defs)

subsection \<open>Rendering and reading decimal numbers\<close>

lemma digit_char_digit:
  assumes "k < 10"
  shows "is_digit (digit_char k) \<and> digit_val (digit_char k) = int k"
proof -
  from assms have "k = 0 \<or> k = 1 \<or> k = 2 \<or> k = 3 \<or> k = 4 \<or> k = 5 \<or> k = 6 \<or> k = 7
      \<or> k = 8 \<or> k = 9"
    by arith
  then show ?thesis
    by (elim disjE) (simp_all add: digit_char_def is_digit_def digit_val_def)
qed

lemma is_digit_plain:
  "is_digit c \<Longrightarrow> \<not> is_space c \<and> c \<noteq> CHR ''+'' \<and> c \<noteq> CHR ''-'' \<and> c \<noteq> CHR ''_''
     \<and> c \<noteq> CHR ''.'' \<and> c \<noteq> CHR ''/''"
  by (auto simp: is_digit_def is_space_def)

lemma dec_unfold:
  "dec n = (if n < 10 then [digit_char n] else dec (n div 10) @ [digit_char (n mod 10)])"
  by (rule dec.simps)

lemma dec_nonempty: "dec n \<noteq> []"
  by (subst dec_unfold) simp

lemma dec_digits: "c \<in> set (dec n) \<Longrightarrow> is_digit c"
proof (induction n rule: dec.induct)
  case (1 n)
  show ?case
  proof (cases "n < 10")
    case True
    with "1.prems" have "c = digit_char n"
      by (subst (asm) dec_unfold) simp
    with True show ?thesis by (simp add: digit_char_digit)
  next
    case False
    with "1.prems" have "c \<in> set (dec (n div 10)) \<or> c = digit_char (n mod 10)"
      by (subst (asm) dec_unfold) auto
    then show ?thesis
      using "1.IH" False by (auto simp: digit_char_digit)
  qed
qed

lemma dec_one_digit: "n < 10 \<Longrightarrow> dec n = [digit_char n]"
  by (subst dec_unfold) simp

lemma dec_more_digits: "\<not> n < 10 \<Longrightarrow> dec n = dec (n div 10) @ [digit_char (n mod 10)]"
  by (subst dec_unfold) simp

lemma length_dec_small:
  assumes "n < 100"
  shows "length (dec n) = (if n < 10 then 1 else 2)"
proof (cases "n < 10")
  case True
  then show ?thesis by (simp add: dec_one_digit)
next
  case False
  moreover from assms have "n div 10 < 10" by simp
  ultimately show ?thesis
    by (simp add: dec_more_digits dec_one_digit)
qed

lemma foldl_dec:
  "foldl (\<lambda>a c. 10 * a + digit_val c) acc (dec n) = acc * 10 ^ length (dec n) + int n"
proof (induction n arbitrary: acc rule: dec.induct)
  case (1 n)
  show ?case
  proof (cases "n < 10")
    case True
    then have "dec n = [digit_char n]"
      by (subst dec_unfold) simp
    with True show ?thesis by (simp add: digit_char_digit)
  next
    case False
    then have d: "dec n = dec (n div 10) @ [digit_char (n mod 10)]"
      by (subst dec_unfold) simp
    have "foldl (\<lambda>a c. 10 * a + digit_val c) acc (dec n)
            = 10 * (acc * 10 ^ length (dec (n div 10)) + int (n div 10)) + int (n mod 10)"
      using False "1.IH" [of acc] by (simp add: d digit_char_digit)
    also have "\<dots> = acc * 10 ^ length (dec n) + int n"
      by (simp add: d algebra_simps zdiv_int zmod_int)
    finally show ?thesis .
  qed
qed

lemma foldl_zeros:
  "foldl (\<lambda>a c. 10 * a + digit_val c) 0 (replicate k (CHR ''0'')) = 0"
  by (induction k) (simp_all add: digit_val_def)

lemma py_digits_all_digits:
  "(\<And>c. c \<in> set ds \<Longrightarrow> is_digit c) \<Longrightarrow> ds \<noteq> [] \<or> ok \<Longrightarrow>
   py_digits acc ok ds = Some (foldl (\<lambda>a c. 10 * a + digit_val c) acc ds)"
  by (induction ds arbitrary: acc ok) simp_all

lemma dropWhile_none:
  "(\<And>c. c \<in> set s \<Longrightarrow> \<not> P c) \<Longrightarrow> dropWhile P s = s"
  by (cases s) simp_all

lemma py_strip_plain:
  assumes "\<And>c. c \<in> set s \<Longrightarrow> \<not> is_space c"
  shows "py_strip s = s"
proof -
  have "dropWhile is_space s = s"
    using assms by (rule dropWhile_none)
  moreover have "dropWhile is_space (rev s) = rev s"
    using assms by (intro dropWhile_none) simp
  ultimately show ?thesis by (simp add: py_strip_def)
qed

lemma filter_all_digits:
  "(\<And>c. c \<in> set ds \<Longrightarrow> is_digit c) \<Longrightarrow> filter is_digit ds = ds"
  by (induction ds) simp_all

lemma py_int_digits:
  assumes "\<And>c. c \<in> set ds \<Longrightarrow> is_digit c" and "ds \<noteq> []"
    and "length ds \<le> max_str_digits"
  shows "py_int ds = Some (foldl (\<lambda>a c. 10 * a + digit_val c) 0 ds)"
proof -
  have s: "py_strip ds = ds"
    using assms(1) by (intro py_strip_plain) (simp add: is_digit_plain)
  obtain c r where cr: "ds = c # r" using assms(2) by (cases ds) auto
  then have "is_digit c" using assms(1) by simp
  then have sign: "c \<noteq> CHR ''+''" "c \<noteq> CHR ''-''" by (simp_all add: is_digit_plain)
  have "filter is_digit ds = ds"
    using assms(1) by (rule filter_all_digits)
  then have "py_literal ds = py_digits 0 False ds"
    using assms(3) by (simp add: py_literal_def)
  moreover have "py_digits 0 False ds = Some (foldl (\<lambda>a c. 10 * a + digit_val c) 0 ds)"
    using assms(1,2) by (intro py_digits_all_digits) simp_all
  ultimately have "py_literal (c # r) = Some (foldl (\<lambda>a c. 10 * a + digit_val c) 0 (c # r))"
    using cr by simp
  then show ?thesis
    using s cr sign by (simp add: py_int_def)
qed

lemma py_int_padded_dec:
  assumes "k + length (dec n) \<le> max_str_digits"
  shows "py_int (replicate k (CHR ''0'') @ dec n) = Some (int n)"
proof -
  have z: "is_digit (CHR ''0'')" by (simp add: is_digit_def)
  have "py_int (replicate k (CHR ''0'') @ dec n)
          = Some (foldl (\<lambda>a c. 10 * a + digit_val c) 0 (replicate k (CHR ''0'') @ dec n))"
    using z assms by (intro py_int_digits) (auto simp: dec_nonempty dest: dec_digits)
  then show ?thesis
    by (simp add: foldl_zeros foldl_dec)
qed

lemma py_int_too_many_digits:
  assumes "\<And>c. c \<in> set ds \<Longrightarrow> is_digit c" and "max_str_digits < length ds"
  shows "py_int ds = None"
proof -
  have s: "py_strip ds = ds"
    using assms(1) by (intro py_strip_plain) (simp add: is_digit_plain)
  obtain c r where cr: "ds = c # r" using assms(2) by (cases ds) auto
  then have "is_digit c" using assms(1) by simp
  then have sign: "c \<noteq> CHR ''+''" "c \<noteq> CHR ''-''" by (simp_all add: is_digit_plain)
  have "filter is_digit ds = ds"
    using assms(1) by (rule filter_all_digits)
  then have "py_literal ds = None"
    using assms(2) by (simp add: py_literal_def)
  then show ?thesis
    using s cr sign by (simp add: py_int_def)
qed

lemma format_03d_nonneg:
  "0 \<le> v \<Longrightarrow> format_03d v = replicate (3 - length (dec (nat v))) (CHR ''0'') @ dec (nat v)"
  by (simp add: format_03d_def Let_def)

lemma format_03d_digits: "0 \<le> v \<Longrightarrow> c \<in> set (format_03d v) \<Longrightarrow> is_digit c"
  by (auto simp: format_03d_nonneg is_digit_def dest: dec_digits)

lemma tl_format_03d:
  assumes "1 \<le> v" and "v \<le> 99"
  shows "tl (format_03d v) = replicate (2 - length (dec (nat v))) (CHR ''0'') @ dec (nat v)"
proof -
  have "nat v < 100" using assms by simp
  then have "length (dec (nat v)) = (if nat v < 10 then 1 else 2)"
    by (rule length_dec_small)
  then show ?thesis
    using assms by (simp add: format_03d_nonneg replicate_numeral_unfold)
qed

lemma py_int_tl_format_03d:
  assumes "1 \<le> v" and "v \<le> 99"
  shows "py_int (tl (format_03d v)) = Some v"
proof -
  have "nat v < 100" using assms by simp
  then have "length (dec (nat v)) \<le> 2"
    by (simp add: length_dec_small)
  then have "2 - length (dec (nat v)) + length (dec (nat v)) \<le> max_str_digits"
    by (simp add: max_str_digits_def)
  then have "py_int (replicate (2 - length (dec (nat v))) (CHR ''0'') @ dec (nat v))
               = Some (int (nat v))"
    by (rule py_int_padded_dec)
  then show ?thesis
    using assms by (simp add: tl_format_03d)
qed

subsection \<open>Name, directory and extension of a joined path\<close>

lemma rev_takeWhile_after_last:
  "c \<notin> set b \<Longrightarrow> rev (takeWhile (\<lambda>x. x \<noteq> c) (rev (a @ c # b))) = b"
  by (induction b rule: rev_induct) auto

lemma rev_takeWhile_absent:
  "c \<notin> set b \<Longrightarrow> rev (takeWhile (\<lambda>x. x \<noteq> c) (rev b)) = b"
  by (induction b rule: rev_induct) auto

lemma rev_dropWhile_after_last:
  "c \<notin> set b \<Longrightarrow> rev (dropWhile (\<lambda>x. x \<noteq> c) (rev (a @ c # b))) = a @ [c]"
  by (induction b rule: rev_induct) auto

lemma rev_dropWhile_absent:
  "c \<notin> set b \<Longrightarrow> rev (dropWhile (\<lambda>x. x \<noteq> c) (rev b)) = []"
  by (induction b rule: rev_induct) auto

lemma rstrip_one:
  "y \<noteq> c \<Longrightarrow> rev (dropWhile (\<lambda>x. x = c) (rev ((ys @ [y]) @ [c]))) = ys @ [y]"
  by simp

lemma Path_div_relative:
  "CHR ''/'' \<notin> set b \<Longrightarrow>
   Path_div a b = (if a = [] \<or> last a = CHR ''/'' then a @ b else a @ CHR ''/'' # b)"
  by (cases b) (auto simp: Path_div_def)

lemma Path_name_Path_div:
  assumes "CHR ''/'' \<notin> set b"
  shows "Path_name (Path_div a b) = b"
proof (cases a rule: rev_cases)
  case Nil
  then show ?thesis
    using assms by (simp add: Path_div_relative Path_name_def rev_takeWhile_absent)
next
  case (snoc ys y)
  show ?thesis
  proof (cases "y = CHR ''/''")
    case True
    then have p: "Path_div a b = ys @ CHR ''/'' # b"
      using assms snoc by (simp add: Path_div_relative)
    show ?thesis
      unfolding Path_name_def p using assms by (rule rev_takeWhile_after_last)
  next
    case False
    then have p: "Path_div a b = a @ CHR ''/'' # b"
      using assms snoc by (simp add: Path_div_relative)
    show ?thesis
      unfolding Path_name_def p using assms by (rule rev_takeWhile_after_last)
  qed
qed

lemma Path_dirname_Path_div:
  assumes "CHR ''/'' \<notin> set b"
    and "d = [] \<or> last d \<noteq> CHR ''/'' \<or> set d \<subseteq> {CHR ''/''}"
  shows "Path_dirname (Path_div d b) = d"
proof (cases d rule: rev_cases)
  case Nil
  then show ?thesis
    using assms(1) by (simp add: Path_div_relative Path_dirname_def rev_dropWhile_absent)
next
  case (snoc ys y)
  show ?thesis
  proof (cases "y = CHR ''/''")
    case True
    with assms(2) snoc have "\<forall>x \<in> set d. x = CHR ''/''" by auto
    then have rep: "replicate (length d) (CHR ''/'') = d"
      by (rule replicate_length_same)
    have p: "Path_div d b = ys @ CHR ''/'' # b"
      using assms(1) snoc True by (simp add: Path_div_relative)
    have "rev (dropWhile (\<lambda>c. c \<noteq> CHR ''/'') (rev (Path_div d b))) = ys @ [CHR ''/'']"
      unfolding p using assms(1) by (rule rev_dropWhile_after_last)
    then have head: "rev (dropWhile (\<lambda>c. c \<noteq> CHR ''/'') (rev (Path_div d b))) = d"
      using snoc True by simp
    show ?thesis
      unfolding Path_dirname_def head Let_def using rep by simp
  next
    case False
    have p: "Path_div d b = d @ CHR ''/'' # b"
      using assms(1) snoc False by (simp add: Path_div_relative)
    have head: "rev (dropWhile (\<lambda>c. c \<noteq> CHR ''/'') (rev (Path_div d b))) = d @ [CHR ''/'']"
      unfolding p using assms(1) by (rule rev_dropWhile_after_last)
    have "y \<in> set (d @ [CHR ''/''])" using snoc by simp
    then have notrep: "d @ [CHR ''/''] \<noteq> replicate (length (d @ [CHR ''/''])) (CHR ''/'')"
      using False by (metis in_set_replicate)
    have strip: "rev (dropWhile (\<lambda>c. c = CHR ''/'') (rev (d @ [CHR ''/'']))) = d"
      using False unfolding snoc by (rule rstrip_one)
    show ?thesis
      unfolding Path_dirname_def head Let_def using notrep strip by simp
  qed
qed

lemma Path_ext_Path_div:
  assumes "CHR ''/'' \<notin> set pre" and "CHR ''/'' \<notin> set e" and "CHR ''.'' \<notin> set e"
    and "x \<in> set pre" and "x \<noteq> CHR ''.''"
  shows "Path_ext (Path_div d (pre @ CHR ''.'' # e)) = CHR ''.'' # e"
proof -
  have "CHR ''/'' \<notin> set (pre @ CHR ''.'' # e)" using assms(1,2) by simp
  then have n: "Path_name (Path_div d (pre @ CHR ''.'' # e)) = pre @ CHR ''.'' # e"
    by (rule Path_name_Path_div)
  have stem: "rev (dropWhile (\<lambda>c. c \<noteq> CHR ''.'') (rev (pre @ CHR ''.'' # e))) = pre @ [CHR ''.'']"
    using assms(3) by (rule rev_dropWhile_after_last)
  have ext: "rev (takeWhile (\<lambda>c. c \<noteq> CHR ''.'') (rev (pre @ CHR ''.'' # e))) = e"
    using assms(3) by (rule rev_takeWhile_after_last)
  have ex: "list_ex (\<lambda>c. c \<noteq> CHR ''.'') pre"
    using assms(4,5) by (auto simp: list_ex_iff)
  show ?thesis
    unfolding Path_ext_def n Let_def stem ext using ex by simp
qed

subsection \<open>Parsing a composed path\<close>

lemma takeWhile_before_first:
  "c \<notin> set a \<Longrightarrow> takeWhile (\<lambda>x. x \<noteq> c) (a @ c # r) = a"
  by (induction a) auto

lemma dropWhile_before_first:
  "c \<notin> set a \<Longrightarrow> dropWhile (\<lambda>x. x \<noteq> c) (a @ c # r) = c # r"
  by (induction a) auto

text \<open>
  C2, as amended. Let \<open>x\<close> be an object whose directory is a \<open>Path\<close> that is empty,
  consists of slashes only or does not end in a slash, whose descriptor contains neither
  an underscore nor a slash, whose extension contains no dot, underscore or slash, and
  whose version lies in \<open>[1, 99]\<close>. Then \<open>path\<close> returns, and parsing the returned path
  into any object gives back exactly the directory, descriptor, version and extension of
  \<open>x\<close>.
\<close>

theorem parse_path_roundtrip:
  fixes x sf :: scene_file
  assumes "dir x = PyPath d"
    and "d = [] \<or> last d \<noteq> CHR ''/'' \<or> set d \<subseteq> {CHR ''/''}"
    and "CHR ''_'' \<notin> set (descriptor x)" and "CHR ''/'' \<notin> set (descriptor x)"
    and "CHR ''.'' \<notin> set (ext x)" and "CHR ''_'' \<notin> set (ext x)"
    and "CHR ''/'' \<notin> set (ext x)"
    and "1 \<le> version x" and "version x \<le> 99"
  shows "path x = Inr (PyPath (Path_div d (basename x)))
     \<and> init_properties_from_path (Path_div d (basename x)) sf = (Inr (), x)"
proof -
  let ?f = "format_03d (version x)"
  let ?rest = "?f @ CHR ''.'' # ext x"
  let ?pre = "descriptor x @ CHR ''_'' # ?f"
  let ?p = "Path_div d (basename x)"
  have b: "basename x = descriptor x @ CHR ''_'' # ?rest"
    by (simp add: basename_def)
  have b': "basename x = ?pre @ CHR ''.'' # ext x"
    by (simp add: basename_def)
  have digits: "\<And>c. c \<in> set ?f \<Longrightarrow> is_digit c"
    using assms(8) by (intro format_03d_digits) simp_all
  have f_us: "CHR ''_'' \<notin> set ?f" and f_dot: "CHR ''.'' \<notin> set ?f"
    and f_sl: "CHR ''/'' \<notin> set ?f"
    using digits is_digit_plain by blast+
  have noslash: "CHR ''/'' \<notin> set (basename x)"
    using assms(4,7) f_sl by (simp add: b)
  have name: "Path_name ?p = basename x"
    using noslash by (rule Path_name_Path_div)
  have dirn: "Path_dirname ?p = d"
    using noslash assms(2) by (rule Path_dirname_Path_div)
  have "CHR ''/'' \<notin> set ?pre" using assms(4) f_sl by simp
  then have "Path_ext (Path_div d (?pre @ CHR ''.'' # ext x)) = CHR ''.'' # ext x"
    using assms(7,5) by (rule Path_ext_Path_div [where x = "CHR ''_''"]) simp_all
  then have extn: "tl (Path_ext ?p) = ext x"
    by (simp add: b')
  have "count_list (descriptor x @ CHR ''_'' # ?rest) (CHR ''_'') = 1"
    using assms(3,6) f_us by (simp add: count_list_append count_notin)
  then have cnt: "count_list (Path_name ?p) (CHR ''_'') = 1"
    using name b by simp
  have "takeWhile (\<lambda>c. c \<noteq> CHR ''_'') (descriptor x @ CHR ''_'' # ?rest) = descriptor x"
    using assms(3) by (rule takeWhile_before_first)
  then have desc: "takeWhile (\<lambda>c. c \<noteq> CHR ''_'') (Path_name ?p) = descriptor x"
    using name b by simp
  have "dropWhile (\<lambda>c. c \<noteq> CHR ''_'') (descriptor x @ CHR ''_'' # ?rest) = CHR ''_'' # ?rest"
    using assms(3) by (rule dropWhile_before_first)
  then have "dropWhile (\<lambda>c. c \<noteq> CHR ''_'') (Path_name ?p) = CHR ''_'' # ?rest"
    using name b by simp
  moreover have "takeWhile (\<lambda>c. c \<noteq> CHR ''.'') ?rest = ?f"
    using f_dot by (rule takeWhile_before_first)
  ultimately have seg: "tl (takeWhile (\<lambda>c. c \<noteq> CHR ''.'')
        (tl (dropWhile (\<lambda>c. c \<noteq> CHR ''_'') (Path_name ?p)))) = tl ?f"
    by simp
  have "py_int (tl ?f) = Some (version x)"
    using assms(8,9) by (rule py_int_tl_format_03d)
  with seg have int: "py_int (tl (takeWhile (\<lambda>c. c \<noteq> CHR ''.'')
        (tl (dropWhile (\<lambda>c. c \<noteq> CHR ''_'') (Path_name ?p))))) = Some (version x)"
    by simp
  have "init_properties_from_path ?p sf =
     (Inr (), sf\<lparr>priv_dir := PyPath (Path_dirname ?p), ext := tl (Path_ext ?p),
                 descriptor := takeWhile (\<lambda>c. c \<noteq> CHR ''_'') (Path_name ?p),
                 version := version x\<rparr>)"
    using cnt int by (rule init_properties_from_path_returns)
  moreover have "sf\<lparr>priv_dir := PyPath d, ext := ext x, descriptor := descriptor x,
                    version := version x\<rparr> = x"
    using assms(1) by (simp add: dir_def)
  ultimately have "init_properties_from_path ?p sf = (Inr (), x)"
    by (simp only: dirn extn desc)
  moreover have "path x = Inr (PyPath ?p)"
    using assms(1) by (rule path_of_Path_dir)
  ultimately show ?thesis by simp
qed

theorem parse_path_roundtrip_witness:
  "path (ship 7 ''ma'') = Inr (PyPath ''/proj/ship_007.ma'')
   \<and> init_properties_from_path ''/proj/ship_007.ma'' (ship 1 ''mb'') = (Inr (), ship 7 ''ma'')"
proof -
  have p: "Path_div ''/proj'' (basename (ship 7 ''ma'')) = ''/proj/ship_007.ma''"
    by (simp add: basename_def ship_def string_defs)
  have "path (ship 7 ''ma'') = Inr (PyPath (Path_div ''/proj'' (basename (ship 7 ''ma''))))
     \<and> init_properties_from_path (Path_div ''/proj'' (basename (ship 7 ''ma''))) (ship 1 ''mb'')
         = (Inr (), ship 7 ''ma'')"
    by (rule parse_path_roundtrip) (simp_all add: dir_def ship_def)
  then show ?thesis by (simp only: p)
qed

text \<open>
  The claim C2 as stated asks only for a descriptor without underscore, an extension
  without dot and a version in \<open>[1, 999]\<close>. An underscore in the extension gives the
  split a third piece, and parsing raises.
\<close>

theorem parse_path_underscore_in_ext:
  "CHR ''_'' \<notin> set (descriptor (ship 7 ''m_a''))
   \<and> CHR ''.'' \<notin> set (ext (ship 7 ''m_a''))
   \<and> path (ship 7 ''m_a'') = Inr (PyPath ''/proj/ship_007.m_a'')
   \<and> fst (init_properties_from_path ''/proj/ship_007.m_a'' (ship 7 ''m_a'')) = Inl ValueError"
  by (simp add: class_defs ship_def string_defs)

text \<open>
  The other restrictions are needed as well: a three-digit version loses its first
  digit to the parser (the marker character it drops is not written by \<open>basename\<close>), a
  slash in the descriptor moves into the directory, and a trailing slash of the directory
  is not read back.
\<close>

lemma parse_path_version_100:
  "path (ship 100 ''ma'') = Inr (PyPath ''/proj/ship_100.ma'')
   \<and> init_properties_from_path ''/proj/ship_100.ma'' (ship 100 ''ma'') = (Inr (), ship 0 ''ma'')"
  by (simp add: class_defs ship_def string_defs)

lemma parse_path_slash_in_descriptor:
  "path \<lparr>priv_dir = PyPath ''/proj'', descriptor = ''a/b'', version = 7, ext = ''ma''\<rparr>
     = Inr (PyPath ''/proj/a/b_007.ma'')
   \<and> init_properties_from_path ''/proj/a/b_007.ma'' (ship 1 ''ma'')
       = (Inr (), \<lparr>priv_dir = PyPath ''/proj/a'', descriptor = ''b'', version = 7, ext = ''ma''\<rparr>)"
  by (simp add: class_defs ship_def string_defs)

lemma parse_path_trailing_slash:
  "path \<lparr>priv_dir = PyPath ''/proj/'', descriptor = ''ship'', version = 7, ext = ''ma''\<rparr>
     = Inr (PyPath ''/proj/ship_007.ma'')
   \<and> init_properties_from_path ''/proj/ship_007.ma'' (ship 1 ''mb'') = (Inr (), ship 7 ''ma'')"
  by (simp add: class_defs ship_def string_defs)

end
